theory Spec2Isabelle
  imports Main "HOL-Library.Sublist"
begin

section \<open>JavaScript string primitives used by the sources\<close>

text \<open>
  Strings are lists of characters. \<open>String.prototype.startsWith\<close>, \<open>endsWith\<close>,
  \<open>includes\<close> and \<open>slice(n)\<close> (with \<open>n\<close> non-negative) are the usual list operations.
\<close>

definition startsWith :: "string \<Rightarrow> string \<Rightarrow> bool" where
  "startsWith s p = prefix p s"

definition endsWith :: "string \<Rightarrow> string \<Rightarrow> bool" where
  "endsWith s p = suffix p s"

fun includes_str :: "string \<Rightarrow> string \<Rightarrow> bool" where
  "includes_str [] p = (p = [])"
| "includes_str (c # s) p = (prefix p (c # s) \<or> includes_str s p)"

definition slice_from :: "string \<Rightarrow> nat \<Rightarrow> string" where
  "slice_from s n = drop n s"

text \<open>\<open>s || d\<close> on strings: the empty string is falsy.\<close>

definition or_else :: "string \<Rightarrow> string \<Rightarrow> string" where
  "or_else s d = (if s = [] then d else s)"

text \<open>
  \<open>s.split(c)\<close> for a one-character separator: the pieces between the separators, in
  order; there is always at least one piece.
\<close>

fun split_on :: "char \<Rightarrow> string \<Rightarrow> string list" where
  "split_on c [] = [[]]"
| "split_on c (x # xs) =
     (if x = c then [] # split_on c xs
      else (case split_on c xs of [] \<Rightarrow> [[x]] | h # t \<Rightarrow> (x # h) # t))"

text \<open>\<open>s.replace(/\/$/, '')\<close>: one trailing slash is removed.\<close>

definition replace_trailing_slash :: "string \<Rightarrow> string" where
  "replace_trailing_slash s = (if endsWith s ''/'' then butlast s else s)"

text \<open>\<open>s.replace(/\.html$/, '')\<close>: a final \<open>.html\<close> is removed.\<close>

definition replace_html_suffix :: "string \<Rightarrow> string" where
  "replace_html_suffix s = (if endsWith s ''.html'' then take (length s - 5) s else s)"

text \<open>
  \<open>s.replace(pat, '')\<close> with a string pattern: the first occurrence of \<open>pat\<close> is
  removed, wherever it stands.
\<close>

fun replace_first :: "string \<Rightarrow> string \<Rightarrow> string" where
  "replace_first pat [] = []"
| "replace_first pat (c # s) =
     (if prefix pat (c # s) then drop (length pat) (c # s) else c # replace_first pat s)"

text \<open>
  The characters that \<open>.\<close> of a regular expression (no \<open>s\<close> flag) does not match.
  Of the four ECMAScript line terminators only LF and CR are single characters here.
\<close>

definition line_terminator :: "char \<Rightarrow> bool" where
  "line_terminator c = (c = CHR 0x0A \<or> c = CHR 0x0D)"

section \<open>The language router of the dev and preview servers\<close>

definition SUPPORTED_LANGUAGES :: "string list" where
  "SUPPORTED_LANGUAGES =
     [''en'', ''de'', ''es'', ''zh'', ''zh-TW'', ''vi'', ''it'', ''id'', ''tr'', ''fr'', ''pt'']"

text \<open>
  \<open>LANG_REGEX = ^/(l1|l2|...)(?:/(.*))?$\<close>, the alternation being the list joined by
  \<open>|\<close>. The argument of \<open>LANG_REGEX_alt\<close> is the input after the leading slash.
  A backtracking matcher takes the alternatives in order; for each one that is a prefix
  of the input it first tries the optional group (a slash, then \<open>.*\<close>, which has to
  reach the end of the input because of \<open>$\<close>), then the empty option (the input ends
  here), and moves to the next alternative when both fail. The result is group 1 and
  group 2, \<open>None\<close> for a group that took no part in the match.
\<close>

fun LANG_REGEX_alt :: "string list \<Rightarrow> string \<Rightarrow> (string \<times> string option) option" where
  "LANG_REGEX_alt [] p = None"
| "LANG_REGEX_alt (l # ls) p =
     (if prefix (l @ ''/'') p \<and> \<not> list_ex line_terminator (drop (length l + 1) p)
      then Some (l, Some (drop (length l + 1) p))
      else if p = l then Some (l, None)
      else LANG_REGEX_alt ls p)"

definition LANG_REGEX_match :: "string \<Rightarrow> (string \<times> string option) option" where
  "LANG_REGEX_match pathname =
     (case pathname of
        [] \<Rightarrow> None
      | c # p \<Rightarrow> if c = CHR ''/'' then LANG_REGEX_alt SUPPORTED_LANGUAGES p else None)"

definition rootPages :: "string list" where
  "rootPages =
     [''index'', ''about'', ''contact'', ''faq'', ''privacy'', ''terms'', ''licensing'',
      ''tools'', ''404'', ''pdf-converter'', ''pdf-editor'', ''pdf-security'',
      ''pdf-merge-split'']"

text \<open>
  \<open>loadPages\<close>: the argument is the listing of the directory \<open>src/pages\<close>, \<open>None\<close>
  when the directory does not exist.
\<close>

definition loadPages :: "string list option \<Rightarrow> string set" where
  "loadPages listing =
     (case listing of
        None \<Rightarrow> {}
      | Some files \<Rightarrow>
          set (map (replace_first ''.html'') (filter (\<lambda>file. endsWith file ''.html'') files)))
     \<union> set rootPages"

text \<open>
  What the router reads from its surroundings: the environment variable \<open>BASE_URL\<close>,
  the listing of \<open>src/pages\<close> read once at start-up, and the file system probe
  \<open>fs.existsSync(resolve(__dirname, a, b, ...))\<close>, a predicate on the path components
  \<open>[a, b, ...]\<close> below the project directory.
\<close>

record server_env =
  BASE_URL :: "string option"
  pagesDir :: "string list option"
  existsSync :: "string list \<Rightarrow> bool"

definition PAGES :: "server_env \<Rightarrow> string set" where
  "PAGES env = loadPages (pagesDir env)"

definition getBasePath :: "server_env \<Rightarrow> string" where
  "getBasePath env =
     replace_trailing_slash
       (case BASE_URL env of None \<Rightarrow> ''/'' | Some b \<Rightarrow> or_else b ''/'')"

text \<open>
  \<open>const [fullPathname, queryString] = req.url.split('?')\<close>: the first two pieces,
  the second one \<open>undefined\<close> when the URL has no question mark.
\<close>

definition fullPathname_of :: "string \<Rightarrow> string" where
  "fullPathname_of url = (case split_on CHR ''?'' url of [] \<Rightarrow> [] | p # _ \<Rightarrow> p)"

definition queryString_of :: "string \<Rightarrow> string option" where
  "queryString_of url = (case split_on CHR ''?'' url of _ # q # _ \<Rightarrow> Some q | _ \<Rightarrow> None)"

text \<open>\<open>queryString ? `?${queryString}` : ''\<close>\<close>

definition query_suffix :: "string option \<Rightarrow> string" where
  "query_suffix queryString =
     (case queryString of None \<Rightarrow> [] | Some q \<Rightarrow> if q = [] then [] else ''?'' @ q)"

text \<open>Lines 80 to 87: the base path is cut off and a leading slash is ensured.\<close>

definition normalize_pathname :: "string \<Rightarrow> string \<Rightarrow> string" where
  "normalize_pathname basePath fullPathname =
     (let pathname =
            (if basePath \<noteq> [] \<and> basePath \<noteq> ''/'' \<and> startsWith fullPathname basePath
             then or_else (slice_from fullPathname (length basePath)) ''/''
             else fullPathname)
      in if \<not> startsWith pathname ''/'' then ''/'' @ pathname else pathname)"

text \<open>
  What the middleware does with a request: it ends the response itself with a status
  code and a \<open>Location\<close> header, or it calls \<open>next()\<close>, and then \<open>req.url\<close> is
  what the later handlers see.
\<close>

datatype outcome =
    Responded nat string
  | Forwarded "string option"

text \<open>
  Lines 121 and 122: \<open>cleanPath = rest.replace(/\/$/, '').replace(/\.html$/, '')\<close> and
  \<open>pageName = cleanPath.split('/')[0]\<close>.
\<close>

definition cleanPath_of :: "string \<Rightarrow> string" where
  "cleanPath_of rest = replace_html_suffix (replace_trailing_slash rest)"

definition pageName_of :: "string \<Rightarrow> string" where
  "pageName_of cleanPath = (case split_on CHR ''/'' cleanPath of [] \<Rightarrow> [] | s # _ \<Rightarrow> s)"

text \<open>Lines 91 to 174: the path has a language prefix.\<close>

definition language_route ::
  "bool \<Rightarrow> server_env \<Rightarrow> string \<Rightarrow> string \<Rightarrow> string option \<Rightarrow> string \<Rightarrow> string option \<Rightarrow> outcome"
where
  "language_route isDev env url pathname queryString lang m2 =
     (let basePath = getBasePath env;
          rest = (case m2 of None \<Rightarrow> [] | Some r \<Rightarrow> r)
      in if rest = [] \<and> \<not> endsWith pathname ''/'' then
           Responded 302
             ((if basePath \<noteq> [] then basePath @ ''/'' @ lang @ ''/'' else ''/'' @ lang @ ''/'')
              @ query_suffix queryString)
         else if rest = [] \<or> rest = ''/'' then
           (if isDev then Forwarded (Some (''/index.html'' @ query_suffix queryString))
            else if existsSync env [''dist'', lang, ''index.html'']
            then Forwarded (Some (''/'' @ lang @ ''/index.html'' @ query_suffix queryString))
            else Forwarded (Some (''/index.html'' @ query_suffix queryString)))
         else
           (let cleanPath = cleanPath_of rest;
                pageName = pageName_of cleanPath
            in if pageName \<noteq> [] \<and> pageName \<in> PAGES env then
                 (if isDev then
                    (if existsSync env [''src/pages'', pageName @ ''.html'']
                     then Forwarded
                            (Some (''/src/pages/'' @ pageName @ ''.html'' @ query_suffix queryString))
                     else Forwarded (Some (''/'' @ pageName @ ''.html'' @ query_suffix queryString)))
                  else
                    (if existsSync env [''dist'', lang, pageName @ ''.html'']
                     then Forwarded
                            (Some (''/'' @ lang @ ''/'' @ pageName @ ''.html''
                                   @ query_suffix queryString))
                     else Forwarded (Some (''/'' @ pageName @ ''.html'' @ query_suffix queryString))))
               else if \<not> includes_str cleanPath ''.'' then
                 (if isDev then
                    Forwarded (Some (''/'' @ cleanPath @ ''.html'' @ query_suffix queryString))
                  else
                    (if existsSync env [''dist'', lang, cleanPath @ ''.html'']
                     then Forwarded
                            (Some (''/'' @ lang @ ''/'' @ cleanPath @ ''.html''
                                   @ query_suffix queryString))
                     else Forwarded (Some (''/'' @ cleanPath @ ''.html'' @ query_suffix queryString))))
               else Forwarded (Some url)))"

text \<open>Lines 176 to 189: the path has no language prefix.\<close>

definition plain_route ::
  "bool \<Rightarrow> server_env \<Rightarrow> string \<Rightarrow> string \<Rightarrow> string option \<Rightarrow> outcome"
where
  "plain_route isDev env url pathname queryString =
     (let pageName = replace_first ''.html'' (slice_from pathname 1)
      in if isDev \<and> endsWith pathname ''.html'' \<and> \<not> startsWith pathname ''/src/''
            \<and> pageName \<in> PAGES env \<and> existsSync env [''src/pages'', pageName @ ''.html'']
         then Forwarded (Some (''/src/pages/'' @ pageName @ ''.html'' @ query_suffix queryString))
         else Forwarded (Some url))"

text \<open>
  \<open>createLanguageMiddleware(isDev)\<close> applied to a request; the argument is
  \<open>req.url\<close>, which may be undefined.
\<close>

definition createLanguageMiddleware :: "bool \<Rightarrow> server_env \<Rightarrow> string option \<Rightarrow> outcome" where
  "createLanguageMiddleware isDev env req_url =
     (case req_url of
        None \<Rightarrow> Forwarded None
      | Some url \<Rightarrow>
          if url = [] then Forwarded (Some url)
          else
            (let fullPathname = fullPathname_of url;
                 queryString = queryString_of url;
                 pathname = normalize_pathname (getBasePath env) fullPathname
             in case LANG_REGEX_match pathname of
                  Some (lang, m2) \<Rightarrow> language_route isDev env url pathname queryString lang m2
                | None \<Rightarrow> plain_route isDev env url pathname queryString))"

section \<open>The browser side: \<open>i18n.ts\<close>\<close>

definition supportedLanguages :: "string list" where
  "supportedLanguages =
     [''en'', ''fr'', ''de'', ''es'', ''ru'', ''zh'', ''zh-TW'', ''vi'', ''tr'', ''id'', ''it'',
      ''pt'']"

text \<open>
  The alternation \<open>en|fr|es|de|ru|zh|zh-TW|vi|tr|id|it|pt\<close>, written out in each of the
  three regular expressions of \<open>i18n.ts\<close> (lines 50, 124 and 216).
\<close>

definition url_lang_alternatives :: "string list" where
  "url_lang_alternatives =
     [''en'', ''fr'', ''es'', ''de'', ''ru'', ''zh'', ''zh-TW'', ''vi'', ''tr'', ''id'', ''it'',
      ''pt'']"

text \<open>
  What the functions of \<open>i18n.ts\<close> read and write in the browser:
  \<open>import.meta.env.BASE_URL\<close>, the parts of \<open>window.location\<close>, the local storage,
  and the URL assigned to \<open>window.location.href\<close>, if one was.
\<close>

record browser =
  env_BASE_URL :: string
  location_pathname :: string
  location_search :: string
  location_hash :: string
  localStorage :: "string \<rightharpoonup> string"
  location_href_assigned :: "string option"

text \<open>
  \<open>^\/(en|fr|...)(?:\/|$)\<close> after the leading slash: the first alternative that is a
  prefix of the input and is followed by a slash or by the end of the input. The result
  is group 1.
\<close>

fun lang_prefix_alt :: "string list \<Rightarrow> string \<Rightarrow> string option" where
  "lang_prefix_alt [] p = None"
| "lang_prefix_alt (l # ls) p =
     (if prefix l p \<and> (case drop (length l) p of [] \<Rightarrow> True | c # _ \<Rightarrow> c = CHR ''/'')
      then Some l
      else lang_prefix_alt ls p)"

definition lang_prefix_match :: "string \<Rightarrow> string option" where
  "lang_prefix_match path =
     (case path of
        [] \<Rightarrow> None
      | c # p \<Rightarrow> if c = CHR ''/'' then lang_prefix_alt url_lang_alternatives p else None)"

text \<open>
  Lines 38 to 47 cut the base path off the pathname the way lines 80 to 87 of the
  router do.
\<close>

definition getLanguageFromUrl :: "browser \<Rightarrow> string" where
  "getLanguageFromUrl b =
     (let basePath = replace_trailing_slash (env_BASE_URL b);
          path = normalize_pathname basePath (location_pathname b);
          fromStorage =
            (case localStorage b ''i18nextLng'' of
               None \<Rightarrow> ''en''
             | Some storedLang \<Rightarrow>
                 if storedLang \<noteq> [] \<and> storedLang \<in> set supportedLanguages then storedLang
                 else ''en'')
      in case lang_prefix_match path of
           None \<Rightarrow> fromStorage
         | Some l \<Rightarrow> if l \<in> set supportedLanguages then l else fromStorage)"

text \<open>
  \<open>^\/(en|fr|...)(\/.*)?$\<close> of \<open>changeLanguage\<close>, after the leading slash: as
  \<open>LANG_REGEX\<close>, but group 2 keeps its slash.
\<close>

fun lang_rest_alt :: "string list \<Rightarrow> string \<Rightarrow> (string \<times> string option) option" where
  "lang_rest_alt [] p = None"
| "lang_rest_alt (l # ls) p =
     (if prefix (l @ ''/'') p \<and> \<not> list_ex line_terminator (drop (length l + 1) p)
      then Some (l, Some (drop (length l) p))
      else if p = l then Some (l, None)
      else lang_rest_alt ls p)"

definition lang_rest_match :: "string \<Rightarrow> (string \<times> string option) option" where
  "lang_rest_match path =
     (case path of
        [] \<Rightarrow> None
      | c # p \<Rightarrow> if c = CHR ''/'' then lang_rest_alt url_lang_alternatives p else None)"

text \<open>\<open>s.replace(/\/+/g, '/')\<close>: every run of slashes becomes one slash.\<close>

function replace_slash_runs :: "string \<Rightarrow> string" where
  "replace_slash_runs [] = []"
| "replace_slash_runs (c # s) =
     (if c = CHR ''/'' then CHR ''/'' # replace_slash_runs (dropWhile (\<lambda>x. x = CHR ''/'') s)
      else c # replace_slash_runs s)"
  by pat_completeness auto
termination
  by (relation "measure length") (auto simp: le_imp_less_Suc length_dropWhile_le)

text \<open>
  \<open>s.replace(/([^:])\/+/g, '$1/')\<close>: scanning from the left, a character other than a
  colon followed by a run of slashes becomes that character and one slash, and the scan
  goes on after the run.
\<close>

function replace_after_non_colon :: "string \<Rightarrow> string" where
  "replace_after_non_colon [] = []"
| "replace_after_non_colon [c] = [c]"
| "replace_after_non_colon (c # d # s) =
     (if c \<noteq> CHR '':'' \<and> d = CHR ''/''
      then c # CHR ''/'' # replace_after_non_colon (dropWhile (\<lambda>x. x = CHR ''/'') s)
      else c # replace_after_non_colon (d # s))"
  by pat_completeness auto
termination
  by (relation "measure length")
    (auto simp: le_imp_less_Suc length_dropWhile_le intro: less_SucI)

definition changeLanguage :: "string \<Rightarrow> browser \<Rightarrow> browser" where
  "changeLanguage lang b =
     (if lang \<notin> set supportedLanguages then b
      else
        (let b1 = b\<lparr>localStorage := (localStorage b)(''i18nextLng'' \<mapsto> lang)\<rparr>;
             basePath = replace_trailing_slash (env_BASE_URL b);
             relativePath = normalize_pathname basePath (location_pathname b);
             pagePathWithoutLang =
               (case lang_rest_match relativePath of
                  None \<Rightarrow> relativePath
                | Some (_, m2) \<Rightarrow> (case m2 of None \<Rightarrow> ''/'' | Some r \<Rightarrow> or_else r ''/''));
             pagePathWithoutLang =
               (if \<not> startsWith pagePathWithoutLang ''/'' then ''/'' @ pagePathWithoutLang
                else pagePathWithoutLang);
             newRelativePath =
               (if lang = ''en'' then pagePathWithoutLang else ''/'' @ lang @ pagePathWithoutLang);
             newPath =
               (if basePath \<noteq> [] \<and> basePath \<noteq> ''/'' then basePath @ newRelativePath
                else newRelativePath);
             newPath = replace_slash_runs newPath;
             newUrl = newPath @ location_search b @ location_hash b
         in b1\<lparr>location_href_assigned := Some newUrl\<rparr>))"

text \<open>
  \<open>^(BASE)?/(en|fr|...)(/|$)\<close> of \<open>rewriteLinks\<close>, where \<open>BASE\<close> is the base path
  with every special character of regular expressions escaped: it matches the base path
  itself. The test succeeds with the optional group or without it.
\<close>

definition slash_then_lang :: "string \<Rightarrow> bool" where
  "slash_then_lang s =
     (case s of
        [] \<Rightarrow> False
      | c # p \<Rightarrow> c = CHR ''/'' \<and> lang_prefix_alt url_lang_alternatives p \<noteq> None)"

definition langPrefixRegex_test :: "string \<Rightarrow> string \<Rightarrow> bool" where
  "langPrefixRegex_test basePath href =
     ((prefix basePath href \<and> slash_then_lang (drop (length basePath) href))
      \<or> slash_then_lang href)"

text \<open>The body of the \<open>forEach\<close> of \<open>rewriteLinks\<close>: the new value of one \<open>href\<close>.\<close>

definition rewrite_href :: "string \<Rightarrow> string \<Rightarrow> string \<Rightarrow> string" where
  "rewrite_href basePath currentLang href =
     (if href = [] then href
      else if startsWith href ''http'' \<or> startsWith href ''//'' \<or> startsWith href ''mailto:''
              \<or> startsWith href ''tel:'' \<or> startsWith href ''#''
              \<or> startsWith href ''javascript:''
      then href
      else if includes_str href ''/assets/'' then href
      else if langPrefixRegex_test basePath href then href
      else
        (let newHref =
               (if basePath \<noteq> [] \<and> basePath \<noteq> ''/'' \<and> startsWith href basePath then
                  basePath @ ''/'' @ currentLang @ slice_from href (length basePath)
                else if startsWith href ''/'' then
                  (if basePath \<noteq> [] \<and> basePath \<noteq> ''/''
                   then basePath @ ''/'' @ currentLang @ href
                   else ''/'' @ currentLang @ href)
                else if href = [] \<or> href = ''index.html'' then
                  (if basePath \<noteq> [] \<and> basePath \<noteq> ''/''
                   then basePath @ ''/'' @ currentLang @ ''/''
                   else ''/'' @ currentLang @ ''/'')
                else currentLang @ ''/'' @ href)
         in replace_after_non_colon newHref))"

text \<open>
  \<open>rewriteLinks\<close> on the \<open>href\<close> attributes of the elements \<open>a[href]\<close> of the
  document, in document order.
\<close>

definition rewriteLinks :: "browser \<Rightarrow> string list \<Rightarrow> string list" where
  "rewriteLinks b hrefs =
     (let currentLang = getLanguageFromUrl b
      in if currentLang = ''en'' then hrefs
         else map (rewrite_href (replace_trailing_slash (env_BASE_URL b)) currentLang) hrefs)"

section \<open>The file list of a tool page\<close>

record file_obj =
  file_name :: string
  file_type :: string
  file_size :: nat

text \<open>
  The module state: the array \<open>files\<close>, the alerts shown so far (title and message),
  and the list last drawn by \<open>updateUI\<close>.
\<close>

record page_state =
  files :: "file_obj list"
  alerts :: "(string \<times> string) list"
  displayed :: "file_obj list"

text \<open>
  \<open>toLowerCase\<close> on the letters A to Z. JavaScript lowers other letters as well; none of
  them becomes a character of \<open>.pdf\<close>.
\<close>

definition toLowerCase :: "string \<Rightarrow> string" where
  "toLowerCase s =
     map (\<lambda>c. case map_of (zip ''ABCDEFGHIJKLMNOPQRSTUVWXYZ'' ''abcdefghijklmnopqrstuvwxyz'') c of
                None \<Rightarrow> c
              | Some l \<Rightarrow> l) s"

definition is_pdf :: "file_obj \<Rightarrow> bool" where
  "is_pdf f =
     (file_type f = ''application/pdf'' \<or> endsWith (toLowerCase (file_name f)) ''.pdf'')"

definition updateUI :: "page_state \<Rightarrow> page_state" where
  "updateUI st = st\<lparr>displayed := files st\<rparr>"

definition showAlert :: "string \<Rightarrow> string \<Rightarrow> page_state \<Rightarrow> page_state" where
  "showAlert title message st = st\<lparr>alerts := alerts st @ [(title, message)]\<rparr>"

definition handleFiles :: "file_obj list \<Rightarrow> page_state \<Rightarrow> page_state" where
  "handleFiles newFiles st =
     (let validFiles = filter is_pdf newFiles;
          st1 =
            (if length validFiles < length newFiles
             then showAlert ''Invalid Files''
                    ''Some files were skipped. Only PDF files are allowed.'' st
             else st)
      in if length validFiles > 0 then updateUI (st1\<lparr>files := files st1 @ validFiles\<rparr>)
         else st1)"

text \<open>
  The other writers of \<open>files\<close>: the clear button and \<open>resetState\<close> empty it, a remove
  button filters out one index.
\<close>

definition resetState :: "page_state \<Rightarrow> page_state" where
  "resetState st = updateUI (st\<lparr>files := []\<rparr>)"

definition removeFile :: "nat \<Rightarrow> page_state \<Rightarrow> page_state" where
  "removeFile index st =
     updateUI (st\<lparr>files := map snd (filter (\<lambda>(i, _). i \<noteq> index)
                                       (zip [0 ..< length (files st)] (files st)))\<rparr>)"

datatype event = HandleFiles "file_obj list" | ClearFiles | RemoveFile nat | ResetState

fun handle_event :: "event \<Rightarrow> page_state \<Rightarrow> page_state" where
  "handle_event (HandleFiles newFiles) st = handleFiles newFiles st"
| "handle_event ClearFiles st = updateUI (st\<lparr>files := []\<rparr>)"
| "handle_event (RemoveFile index) st = removeFile index st"
| "handle_event ResetState st = resetState st"

definition initial_page :: page_state where
  "initial_page = \<lparr>files = [], alerts = [], displayed = []\<rparr>"

text \<open>The page after a sequence of events, the first event first.\<close>

fun run_events :: "event list \<Rightarrow> page_state \<Rightarrow> page_state" where
  "run_events [] st = st"
| "run_events (e # es) st = run_events es (handle_event e st)"

section \<open>Facts about the string primitives\<close>

lemma split_on_nonempty: "split_on c s \<noteq> []"
  by (induction s) (auto split: list.splits)

lemma first_piece_takeWhile:
  "(case split_on c s of [] \<Rightarrow> [] | h # _ \<Rightarrow> h) = takeWhile (\<lambda>x. x \<noteq> c) s"
  by (induction s) (auto split: list.splits)

lemma split_on_first: "c \<notin> set p \<Longrightarrow> split_on c (p @ c # q) = p # split_on c q"
  by (induction p) (auto split: list.splits)

lemma split_on_none: "c \<notin> set p \<Longrightarrow> split_on c p = [p]"
  by (induction p) (auto split: list.splits)

lemma includes_str_char: "includes_str s [c] \<longleftrightarrow> c \<in> set s"
  by (induction s) auto

lemma takeWhile_sep: "c \<notin> set l \<Longrightarrow> takeWhile (\<lambda>x. x \<noteq> c) (l @ c # t) = l"
  by (induction l) auto

lemma prefix_snoc_sep:
  assumes "prefix (l @ [c]) (L @ c # r)" and "c \<notin> set l" and "c \<notin> set L"
  shows "l = L"
proof -
  from assms(1) obtain t where t: "L @ c # r = l @ c # t"
    by (auto simp: prefix_def)
  have "takeWhile (\<lambda>x. x \<noteq> c) (L @ c # r) = L"
    using assms(3) by (rule takeWhile_sep)
  moreover have "takeWhile (\<lambda>x. x \<noteq> c) (l @ c # t) = l"
    using assms(2) by (rule takeWhile_sep)
  ultimately show ?thesis using t by simp
qed

lemma endsWith_single: "endsWith s [c] \<longleftrightarrow> s \<noteq> [] \<and> last s = c"
proof (cases s rule: rev_cases)
  case Nil
  then show ?thesis by (simp add: endsWith_def)
next
  case (snoc ys y)
  have "suffix ([] @ [c]) (ys @ [y]) \<longleftrightarrow> c = y"
    by (simp only: snoc_suffix_snoc) simp
  then show ?thesis using snoc by (auto simp: endsWith_def)
qed

lemma not_endsWith_slash:
  assumes "s \<noteq> []" and "CHR ''/'' \<notin> set s"
  shows "\<not> endsWith (t @ s) ''/''"
proof
  assume "endsWith (t @ s) ''/''"
  then have "last s = CHR ''/''" using assms(1) by (simp add: endsWith_single)
  moreover have "last s \<in> set s" using assms(1) by (rule last_in_set)
  ultimately show False using assms(2) by simp
qed

lemma set_cleanPath_of: "set (cleanPath_of rest) \<subseteq> set rest"
proof -
  have a: "set (replace_trailing_slash s) \<subseteq> set s" for s
    by (auto simp: replace_trailing_slash_def dest: in_set_butlastD)
  have b: "set (replace_html_suffix s) \<subseteq> set s" for s
    by (auto simp: replace_html_suffix_def dest: in_set_takeD)
  show ?thesis unfolding cleanPath_of_def using a b by blast
qed

lemma pageName_of_takeWhile:
  "pageName_of cleanPath = takeWhile (\<lambda>c. c \<noteq> CHR ''/'') cleanPath"
  unfolding pageName_of_def by (rule first_piece_takeWhile)

lemma set_pageName_of: "set (pageName_of cleanPath) \<subseteq> set cleanPath"
  unfolding pageName_of_takeWhile by (auto dest: set_takeWhileD)

text \<open>How \<open>req.url.split('?')\<close> cuts a URL with no, one and two question marks.\<close>

lemma split_url_no_query:
  "CHR ''?'' \<notin> set p \<Longrightarrow> fullPathname_of p = p \<and> queryString_of p = None"
  using split_on_none[of "CHR ''?''" p] by (simp add: fullPathname_of_def queryString_of_def)

lemma split_url_query:
  assumes "CHR ''?'' \<notin> set p" and "CHR ''?'' \<notin> set q"
  shows "fullPathname_of (p @ ''?'' @ q) = p \<and> queryString_of (p @ ''?'' @ q) = Some q"
  using split_on_first[OF assms(1), of q] split_on_none[OF assms(2)]
  by (simp add: fullPathname_of_def queryString_of_def)

lemma split_url_second_question_mark:
  assumes "CHR ''?'' \<notin> set p" and "CHR ''?'' \<notin> set q"
  shows "queryString_of (p @ ''?'' @ q @ ''?'' @ t) = Some q"
  using split_on_first[OF assms(1), of "q @ ''?'' @ t"] split_on_first[OF assms(2), of t]
  by (simp add: queryString_of_def split: list.splits)

lemmas router_eval =
  SUPPORTED_LANGUAGES_def LANG_REGEX_match_def line_terminator_def normalize_pathname_def
  getBasePath_def fullPathname_of_def queryString_of_def query_suffix_def
  replace_trailing_slash_def replace_html_suffix_def cleanPath_of_def pageName_of_def
  endsWith_def startsWith_def suffix_to_prefix or_else_def slice_from_def Let_def
  PAGES_def loadPages_def rootPages_def
  createLanguageMiddleware_def language_route_def plain_route_def

section \<open>The language matcher\<close>

lemma LANG_REGEX_alt_sound:
  "LANG_REGEX_alt ls p = Some (l, m2) \<Longrightarrow>
     l \<in> set ls \<and> (case m2 of None \<Rightarrow> p = l
                    | Some r \<Rightarrow> p = l @ ''/'' @ r \<and> \<not> list_ex line_terminator r)"
proof (induction ls)
  case Nil
  then show ?case by simp
next
  case (Cons a ls)
  then show ?case
    by (auto split: if_splits simp: prefix_def)
qed

lemma LANG_REGEX_alt_rest:
  assumes "\<forall>l \<in> set ls. CHR ''/'' \<notin> set l" and "L \<in> set ls"
    and "\<not> list_ex line_terminator r"
  shows "LANG_REGEX_alt ls (L @ ''/'' @ r) = Some (L, Some r)"
  using assms
proof (induction ls)
  case Nil
  then show ?case by simp
next
  case (Cons a ls)
  show ?case
  proof (cases "prefix (a @ ''/'') (L @ ''/'' @ r)")
    case True
    have "a = L"
      using prefix_snoc_sep[of a "CHR ''/''" L r] True Cons.prems by auto
    then show ?thesis using Cons.prems by simp
  next
    case False
    have ne: "L @ ''/'' @ r \<noteq> a" using Cons.prems(1) by auto
    have "a \<noteq> L" using False by auto
    then have "L \<in> set ls" using Cons.prems by auto
    then show ?thesis using False ne Cons by auto
  qed
qed

lemma LANG_REGEX_alt_bare:
  assumes "\<forall>l \<in> set ls. CHR ''/'' \<notin> set l" and "L \<in> set ls"
  shows "LANG_REGEX_alt ls L = Some (L, None)"
  using assms
proof (induction ls)
  case Nil
  then show ?case by simp
next
  case (Cons a ls)
  have np: "\<not> prefix (a @ ''/'') L"
  proof
    assume "prefix (a @ ''/'') L"
    then have "CHR ''/'' \<in> set L" by (auto simp: prefix_def)
    then show False using Cons.prems by auto
  qed
  show ?case
  proof (cases "L = a")
    case True
    then show ?thesis using np by simp
  next
    case False
    then show ?thesis using np Cons by auto
  qed
qed

lemma languages_no_slash: "\<forall>l \<in> set SUPPORTED_LANGUAGES. CHR ''/'' \<notin> set l"
  by (simp add: SUPPORTED_LANGUAGES_def)

lemma languages_nonempty: "L \<in> set SUPPORTED_LANGUAGES \<Longrightarrow> L \<noteq> []"
  by (auto simp: SUPPORTED_LANGUAGES_def)

lemma LANG_REGEX_match_rest:
  assumes "L \<in> set SUPPORTED_LANGUAGES" and "\<not> list_ex line_terminator r"
  shows "LANG_REGEX_match (''/'' @ L @ ''/'' @ r) = Some (L, Some r)"
  using LANG_REGEX_alt_rest[OF languages_no_slash assms]
  by (simp add: LANG_REGEX_match_def)

lemma LANG_REGEX_match_bare:
  assumes "L \<in> set SUPPORTED_LANGUAGES"
  shows "LANG_REGEX_match (''/'' @ L) = Some (L, None)"
  using LANG_REGEX_alt_bare[OF languages_no_slash assms]
  by (simp add: LANG_REGEX_match_def)

lemma LANG_REGEX_match_sound:
  assumes "LANG_REGEX_match pathname = Some (l, m2)"
  shows "l \<in> set SUPPORTED_LANGUAGES \<and>
         (case m2 of None \<Rightarrow> pathname = ''/'' @ l
          | Some r \<Rightarrow> pathname = ''/'' @ l @ ''/'' @ r \<and> \<not> list_ex line_terminator r)"
proof (cases pathname)
  case Nil
  then show ?thesis using assms by (simp add: LANG_REGEX_match_def)
next
  case (Cons c p)
  with assms have c: "c = CHR ''/''"
    and m: "LANG_REGEX_alt SUPPORTED_LANGUAGES p = Some (l, m2)"
    by (auto simp: LANG_REGEX_match_def split: if_splits)
  from LANG_REGEX_alt_sound[OF m] show ?thesis
    using Cons c by (auto split: option.splits)
qed

lemma first_segment_of_match:
  assumes "LANG_REGEX_match pathname = Some (l, m2)"
  shows "takeWhile (\<lambda>c. c \<noteq> CHR ''/'') (drop 1 pathname) = l"
proof -
  from LANG_REGEX_match_sound[OF assms] have l: "l \<in> set SUPPORTED_LANGUAGES"
    and p: "(case m2 of None \<Rightarrow> pathname = ''/'' @ l
          | Some r \<Rightarrow> pathname = ''/'' @ l @ ''/'' @ r \<and> \<not> list_ex line_terminator r)"
    by auto
  from l languages_no_slash have ns: "CHR ''/'' \<notin> set l" by blast
  show ?thesis
  proof (cases m2)
    case None
    with p have "pathname = ''/'' @ l" by simp
    then show ?thesis using ns by (auto simp: takeWhile_eq_all_conv)
  next
    case (Some r)
    with p have "pathname = ''/'' @ l @ ''/'' @ r" by simp
    then show ?thesis using takeWhile_sep[OF ns, of r] by simp
  qed
qed

text \<open>
  Claim C4. \<open>LANG_REGEX\<close> is applied on line 89 only, to the path cut from
  \<open>req.url\<close> of an HTTP request, and a request target holds no line feed and no
  carriage return. For every configured language code \<open>L\<close> and every such remainder
  \<open>r\<close>, \<open>LANG_REGEX\<close> applied to \<open>/L/r\<close> gives group 1 = \<open>L\<close> and group 2 =
  \<open>r\<close>, and applied to \<open>/L\<close> it gives group 1 = \<open>L\<close> with group 2 undefined, which
  line 93 turns into the empty remainder. The code \<open>zh-TW\<close> is extracted whole although
  \<open>zh\<close> stands before it in the alternation.
\<close>

theorem lang_regex_extracts_language_and_rest:
  assumes "L \<in> set SUPPORTED_LANGUAGES" and "\<not> list_ex line_terminator r"
  shows "LANG_REGEX_match (''/'' @ L @ ''/'' @ r) = Some (L, Some r)
       \<and> LANG_REGEX_match (''/'' @ L) = Some (L, None)
       \<and> LANG_REGEX_match (''/zh-TW/'' @ r) = Some (''zh-TW'', Some r)
       \<and> LANG_REGEX_match ''/zh-TW'' = Some (''zh-TW'', None)"
proof -
  have tw: "''zh-TW'' \<in> set SUPPORTED_LANGUAGES" by (simp add: SUPPORTED_LANGUAGES_def)
  show ?thesis
    using LANG_REGEX_match_rest[OF assms] LANG_REGEX_match_bare[OF assms(1)]
      LANG_REGEX_match_rest[OF tw assms(2)] LANG_REGEX_match_bare[OF tw]
    by simp
qed

theorem lang_regex_extracts_witness:
  "''zh'' \<in> set SUPPORTED_LANGUAGES
   \<and> \<not> list_ex line_terminator ''merge-pdf''
   \<and> LANG_REGEX_match ''/zh/merge-pdf'' = Some (''zh'', Some ''merge-pdf'')
   \<and> LANG_REGEX_match ''/zh'' = Some (''zh'', None)
   \<and> LANG_REGEX_match ''/zh-TW/merge-pdf'' = Some (''zh-TW'', Some ''merge-pdf'')
   \<and> LANG_REGEX_match ''/zh-TW'' = Some (''zh-TW'', None)
   \<and> LANG_REGEX_match ''/de/a%0Ab'' = Some (''de'', Some ''a%0Ab'')"
  using lang_regex_extracts_language_and_rest[of "''zh''" "''merge-pdf''"]
    lang_regex_extracts_language_and_rest[of "''de''" "''a%0Ab''"]
  by (simp add: SUPPORTED_LANGUAGES_def line_terminator_def)

section \<open>The router\<close>

lemma normalize_of_empty_url: "normalize_pathname b (fullPathname_of []) = ''/''"
  by (simp add: normalize_pathname_def fullPathname_of_def Let_def startsWith_def or_else_def
      slice_from_def)

text \<open>
  A request whose normalized path is \<open>/L\<close> for a configured language is answered with
  a redirect to \<open>/L/\<close> behind the base path, followed by the query string as line 78
  cut it out of the URL.
\<close>

lemma bare_language_redirect:
  assumes "L \<in> set SUPPORTED_LANGUAGES"
    and "normalize_pathname (getBasePath env) (fullPathname_of url) = ''/'' @ L"
  shows "createLanguageMiddleware isDev env (Some url)
         = Responded 302
             ((if getBasePath env \<noteq> [] then getBasePath env @ ''/'' @ L @ ''/''
               else ''/'' @ L @ ''/'') @ query_suffix (queryString_of url))"
proof -
  have ne: "url \<noteq> []"
    using assms languages_nonempty[OF assms(1)] normalize_of_empty_url[of "getBasePath env"]
    by auto
  have "CHR ''/'' \<notin> set L" using assms(1) languages_no_slash by blast
  moreover have "L \<noteq> []" using assms(1) by (rule languages_nonempty)
  ultimately have nend: "\<not> endsWith (''/'' @ L) ''/''"
    using not_endsWith_slash[of L "''/''"] by simp
  show ?thesis
    using ne assms(2) LANG_REGEX_match_bare[OF assms(1)] nend
    by (simp add: createLanguageMiddleware_def language_route_def Let_def)
qed

text \<open>
  A production request whose normalized path is \<open>/L/P\<close>, for a configured language
  \<open>L\<close> and a known page \<open>P\<close> that is one path segment without the suffix
  \<open>.html\<close>, is rewritten to \<open>/L/P.html\<close> when \<open>dist/L/P.html\<close> exists and to
  \<open>/P.html\<close> otherwise, followed by the query string as line 78 cut it out of the URL.
\<close>

lemma known_page_production_rewrite:
  assumes "L \<in> set SUPPORTED_LANGUAGES" and "P \<in> PAGES env"
    and "P \<noteq> []" and "CHR ''/'' \<notin> set P" and "\<not> endsWith P ''.html''"
    and "\<not> list_ex line_terminator P"
    and "normalize_pathname (getBasePath env) (fullPathname_of url) = ''/'' @ L @ ''/'' @ P"
  shows "createLanguageMiddleware False env (Some url)
         = Forwarded (Some ((if existsSync env [''dist'', L, P @ ''.html'']
                             then ''/'' @ L @ ''/'' @ P @ ''.html'' else ''/'' @ P @ ''.html'')
                            @ query_suffix (queryString_of url)))"
proof -
  have ne: "url \<noteq> []"
    using assms(7) normalize_of_empty_url[of "getBasePath env"] by auto
  have nsl: "\<not> endsWith P ''/''"
    using not_endsWith_slash[OF assms(3,4), of "[]"] by simp
  have clean: "cleanPath_of P = P"
    using nsl assms(5)
    by (simp add: cleanPath_of_def replace_trailing_slash_def replace_html_suffix_def)
  have pn: "pageName_of P = P"
    unfolding pageName_of_takeWhile using assms(4) by (auto simp: takeWhile_eq_all_conv)
  have r2: "P \<noteq> ''/''" using assms(4) by auto
  show ?thesis
    using ne assms(1,2,3,7) LANG_REGEX_match_rest[OF assms(1,6)] clean pn r2
    by (simp add: createLanguageMiddleware_def language_route_def Let_def)
qed

text \<open>
  Claim C1 at the request \<open>/de/about?a?b\<close> in production, \<open>about\<close> being one of the
  root pages: the rewritten URL ends in \<open>?a\<close>, whether the localized file exists or
  not. The query string of the request is \<open>a?b\<close>; \<open>req.url.split('?')\<close> cuts the URL
  at every question mark and line 78 keeps the first two pieces only. A query string
  without a question mark, as in \<open>/de/about?x=1\<close>, is reattached whole.
\<close>

theorem known_page_query_cut_at_second_question_mark:
  "createLanguageMiddleware False
     \<lparr>BASE_URL = None, pagesDir = None, existsSync = (\<lambda>p. True)\<rparr>
     (Some ''/de/about?x=1'') = Forwarded (Some ''/de/about.html?x=1'')
   \<and> createLanguageMiddleware False
     \<lparr>BASE_URL = None, pagesDir = None, existsSync = (\<lambda>p. True)\<rparr>
     (Some ''/de/about?a?b'') = Forwarded (Some ''/de/about.html?a'')
   \<and> createLanguageMiddleware False
     \<lparr>BASE_URL = None, pagesDir = None, existsSync = (\<lambda>p. False)\<rparr>
     (Some ''/de/about?a?b'') = Forwarded (Some ''/about.html?a'')"
  by (simp add: router_eval)

text \<open>
  Claim C2 at the request \<open>/fr?a?b\<close>: the answer is a 302 redirect and \<open>next()\<close> is
  not called, but the \<open>Location\<close> is \<open>/fr/?a\<close>. The query string \<open>a?b\<close> of the
  request is cut at its question mark, by the \<open>split\<close> of line 78, with a base path
  as without one. The query string of \<open>/fr?x=1\<close> is kept.
\<close>

theorem redirect_query_cut_at_second_question_mark:
  "createLanguageMiddleware False
     \<lparr>BASE_URL = None, pagesDir = None, existsSync = (\<lambda>p. False)\<rparr>
     (Some ''/fr?x=1'') = Responded 302 ''/fr/?x=1''
   \<and> createLanguageMiddleware False
     \<lparr>BASE_URL = None, pagesDir = None, existsSync = (\<lambda>p. False)\<rparr>
     (Some ''/fr?a?b'') = Responded 302 ''/fr/?a''
   \<and> createLanguageMiddleware False
     \<lparr>BASE_URL = Some ''/pdf/'', pagesDir = None, existsSync = (\<lambda>p. False)\<rparr>
     (Some ''/pdf/fr?a?b'') = Responded 302 ''/pdf/fr/?a''"
  by (simp add: router_eval)

text \<open>
  What the middleware writes in the scenario of a site served under \<open>/pdf/\<close>, for any
  page listing and any state of the \<open>dist\<close> directory.
\<close>

lemma base_path_scenario_rewrite:
  assumes "BASE_URL env = Some ''/pdf/''"
  shows "normalize_pathname (getBasePath env) (fullPathname_of ''/pdf/de/merge-pdf'')
           = ''/de/merge-pdf''
       \<and> LANG_REGEX_match ''/de/merge-pdf'' = Some (''de'', Some ''merge-pdf'')
       \<and> pageName_of (cleanPath_of ''merge-pdf'') = ''merge-pdf''
       \<and> createLanguageMiddleware False env (Some ''/pdf/de/merge-pdf'')
           = Forwarded (Some (if existsSync env [''dist'', ''de'', ''merge-pdf.html'']
                              then ''/de/merge-pdf.html'' else ''/merge-pdf.html''))"
  using assms by (simp add: router_eval)

text \<open>
  Claim C5 at its own request: \<open>BASE_URL\<close> is \<open>/pdf/\<close>, \<open>merge-pdf\<close> is a known page
  and the production request is \<open>/pdf/de/merge-pdf\<close>. The path is normalized to
  \<open>/de/merge-pdf\<close> and matched as language \<open>de\<close> with page \<open>merge-pdf\<close>, as the
  claim says, but \<open>req.url\<close> becomes \<open>/de/merge-pdf.html\<close> when the localized file
  exists and \<open>/merge-pdf.html\<close> when it does not, where the claim has
  \<open>/pdf/de/merge-pdf.html\<close> and \<open>/pdf/merge-pdf.html\<close>. Lines 81 to 83 cut the base
  path off and no assignment to \<open>req.url\<close> puts it back. The other ways out keep
  it: the redirect of line 96 answers \<open>/pdf/de\<close> with \<open>/pdf/de/\<close>, and a request the
  middleware leaves alone, \<open>/pdf/de/logo.svg\<close>, goes on with \<open>/pdf\<close> in front.
\<close>

theorem base_path_scenario_loses_base_path:
  "''merge-pdf'' \<in> PAGES \<lparr>BASE_URL = Some ''/pdf/'', pagesDir = Some [''merge-pdf.html''],
                          existsSync = (\<lambda>p. p = [''dist'', ''de'', ''merge-pdf.html''])\<rparr>
   \<and> normalize_pathname
       (getBasePath \<lparr>BASE_URL = Some ''/pdf/'', pagesDir = Some [''merge-pdf.html''],
                     existsSync = (\<lambda>p. p = [''dist'', ''de'', ''merge-pdf.html''])\<rparr>)
       (fullPathname_of ''/pdf/de/merge-pdf'') = ''/de/merge-pdf''
   \<and> LANG_REGEX_match ''/de/merge-pdf'' = Some (''de'', Some ''merge-pdf'')
   \<and> createLanguageMiddleware False
       \<lparr>BASE_URL = Some ''/pdf/'', pagesDir = Some [''merge-pdf.html''],
        existsSync = (\<lambda>p. p = [''dist'', ''de'', ''merge-pdf.html''])\<rparr>
       (Some ''/pdf/de/merge-pdf'') = Forwarded (Some ''/de/merge-pdf.html'')
   \<and> createLanguageMiddleware False
       \<lparr>BASE_URL = Some ''/pdf/'', pagesDir = Some [''merge-pdf.html''],
        existsSync = (\<lambda>p. False)\<rparr>
       (Some ''/pdf/de/merge-pdf'') = Forwarded (Some ''/merge-pdf.html'')
   \<and> createLanguageMiddleware False
       \<lparr>BASE_URL = Some ''/pdf/'', pagesDir = Some [''merge-pdf.html''],
        existsSync = (\<lambda>p. p = [''dist'', ''de'', ''merge-pdf.html''])\<rparr>
       (Some ''/pdf/de'') = Responded 302 ''/pdf/de/''
   \<and> createLanguageMiddleware False
       \<lparr>BASE_URL = Some ''/pdf/'', pagesDir = Some [''merge-pdf.html''],
        existsSync = (\<lambda>p. p = [''dist'', ''de'', ''merge-pdf.html''])\<rparr>
       (Some ''/pdf/de/logo.svg'') = Forwarded (Some ''/pdf/de/logo.svg'')"
  by (simp add: router_eval)

text \<open>
  Claim C6. When the first segment of the normalized path is not a configured language
  code, \<open>LANG_REGEX\<close> does not match and the request takes the path of lines 176 to
  189, as every request without a language prefix does: no redirect; in production
  \<open>next()\<close> is called with \<open>req.url\<close> untouched; in development either the same, or
  the path ends in \<open>.html\<close>, is not under \<open>/src/\<close>, names a known page, and
  \<open>req.url\<close> becomes that page's source file.
\<close>

theorem unlisted_first_segment_takes_plain_route:
  assumes "url \<noteq> []"
    and "pathname = normalize_pathname (getBasePath env) (fullPathname_of url)"
    and "takeWhile (\<lambda>c. c \<noteq> CHR ''/'') (drop 1 pathname) \<notin> set SUPPORTED_LANGUAGES"
  shows "LANG_REGEX_match pathname = None
       \<and> createLanguageMiddleware isDev env (Some url)
           = plain_route isDev env url pathname (queryString_of url)
       \<and> createLanguageMiddleware False env (Some url) = Forwarded (Some url)
       \<and> (createLanguageMiddleware True env (Some url) = Forwarded (Some url)
          \<or> (endsWith pathname ''.html'' \<and> \<not> startsWith pathname ''/src/''
              \<and> replace_first ''.html'' (slice_from pathname 1) \<in> PAGES env
              \<and> createLanguageMiddleware True env (Some url)
                  = Forwarded (Some (''/src/pages/''
                                     @ replace_first ''.html'' (slice_from pathname 1)
                                     @ ''.html'' @ query_suffix (queryString_of url)))))"
proof -
  have nomatch: "LANG_REGEX_match pathname = None"
  proof (cases "LANG_REGEX_match pathname")
    case None
    then show ?thesis .
  next
    case (Some a)
    obtain l m2 where "a = (l, m2)" by (cases a)
    with Some have m: "LANG_REGEX_match pathname = Some (l, m2)" by simp
    from first_segment_of_match[OF m] LANG_REGEX_match_sound[OF m] assms(3)
    show ?thesis by simp
  qed
  have mw: "createLanguageMiddleware d env (Some url)
           = plain_route d env url pathname (queryString_of url)" for d
    using assms(1,2) nomatch by (simp add: createLanguageMiddleware_def Let_def)
  show ?thesis
    using nomatch mw by (auto simp: plain_route_def Let_def)
qed

theorem unlisted_first_segment_witness:
  "takeWhile (\<lambda>c. c \<noteq> CHR ''/'') (drop 1 ''/xx/merge-pdf'') \<notin> set SUPPORTED_LANGUAGES
   \<and> LANG_REGEX_match ''/xx/merge-pdf'' = None
   \<and> createLanguageMiddleware False
        \<lparr>BASE_URL = None, pagesDir = Some [''merge-pdf.html''], existsSync = (\<lambda>p. True)\<rparr>
        (Some ''/xx/merge-pdf'') = Forwarded (Some ''/xx/merge-pdf'')
   \<and> createLanguageMiddleware True
        \<lparr>BASE_URL = None, pagesDir = Some [''merge-pdf.html''], existsSync = (\<lambda>p. True)\<rparr>
        (Some ''/xx/merge-pdf'') = Forwarded (Some ''/xx/merge-pdf'')
   \<and> createLanguageMiddleware True
        \<lparr>BASE_URL = None, pagesDir = Some [''merge-pdf.html''], existsSync = (\<lambda>p. True)\<rparr>
        (Some ''/merge-pdf.html?x=1'') = Forwarded (Some ''/src/pages/merge-pdf.html?x=1'')"
  using unlisted_first_segment_takes_plain_route
          [of "''/xx/merge-pdf''" "''/xx/merge-pdf''"
              "\<lparr>BASE_URL = None, pagesDir = Some [''merge-pdf.html''],
                existsSync = (\<lambda>p. True)\<rparr>" True]
        unlisted_first_segment_takes_plain_route
          [of "''/merge-pdf.html?x=1''" "''/merge-pdf.html''"
              "\<lparr>BASE_URL = None, pagesDir = Some [''merge-pdf.html''],
                existsSync = (\<lambda>p. True)\<rparr>" True]
  by (simp add: router_eval)

text \<open>
  The last case of lines 124 to 171: with a language prefix, a first segment that is
  empty or not a known page, and a dot anywhere in the cleaned sub-path, none of the
  assignments to \<open>req.url\<close> is reached.
\<close>

lemma dotted_cleanPath_passes_through:
  assumes "url \<noteq> []"
    and "LANG_REGEX_match (normalize_pathname (getBasePath env) (fullPathname_of url))
           = Some (lang, m2)"
    and "rest = (case m2 of None \<Rightarrow> [] | Some r \<Rightarrow> r)"
    and "pageName_of (cleanPath_of rest) = [] \<or> pageName_of (cleanPath_of rest) \<notin> PAGES env"
    and "CHR ''.'' \<in> set (cleanPath_of rest)"
  shows "createLanguageMiddleware isDev env (Some url) = Forwarded (Some url)"
proof -
  have "CHR ''.'' \<in> set rest"
    using assms(5) set_cleanPath_of by blast
  then have r1: "rest \<noteq> []" and r2: "rest \<noteq> ''/''" by auto
  have inc: "includes_str (cleanPath_of rest) ''.''"
    using assms(5) by (simp add: includes_str_char)
  have "language_route isDev env url
          (normalize_pathname (getBasePath env) (fullPathname_of url)) (queryString_of url)
          lang m2
        = Forwarded (Some url)"
    using r1 r2 inc assms(3,4) by (auto simp: language_route_def Let_def)
  then show ?thesis
    using assms(1,2) by (simp add: createLanguageMiddleware_def Let_def)
qed

text \<open>
  Claim C8. When the normalized path has a language prefix and the first segment of the
  cleaned sub-path is not a known page name and has a dot in it, \<open>next()\<close> is called
  with \<open>req.url\<close> as it came in, in development and in production.
\<close>

theorem dotted_unknown_subpath_passes_through:
  assumes "url \<noteq> []"
    and "LANG_REGEX_match (normalize_pathname (getBasePath env) (fullPathname_of url))
           = Some (lang, m2)"
    and "rest = (case m2 of None \<Rightarrow> [] | Some r \<Rightarrow> r)"
    and "pageName_of (cleanPath_of rest) \<notin> PAGES env"
    and "CHR ''.'' \<in> set (pageName_of (cleanPath_of rest))"
  shows "createLanguageMiddleware isDev env (Some url) = Forwarded (Some url)"
proof -
  have "CHR ''.'' \<in> set (cleanPath_of rest)"
    using assms(5) set_pageName_of by blast
  then show ?thesis
    using dotted_cleanPath_passes_through[OF assms(1,2,3)] assms(4) by simp
qed

theorem dotted_unknown_subpath_witness:
  "LANG_REGEX_match (normalize_pathname
       (getBasePath \<lparr>BASE_URL = None, pagesDir = None, existsSync = (\<lambda>p. True)\<rparr>)
       (fullPathname_of ''/de/logo.v2/icon.svg?v=3'')) = Some (''de'', Some ''logo.v2/icon.svg'')
   \<and> pageName_of (cleanPath_of ''logo.v2/icon.svg'') = ''logo.v2''
   \<and> ''logo.v2'' \<notin> PAGES \<lparr>BASE_URL = None, pagesDir = None, existsSync = (\<lambda>p. True)\<rparr>
   \<and> createLanguageMiddleware False
        \<lparr>BASE_URL = None, pagesDir = None, existsSync = (\<lambda>p. True)\<rparr>
        (Some ''/de/logo.v2/icon.svg?v=3'') = Forwarded (Some ''/de/logo.v2/icon.svg?v=3'')
   \<and> createLanguageMiddleware True
        \<lparr>BASE_URL = None, pagesDir = None, existsSync = (\<lambda>p. True)\<rparr>
        (Some ''/de/logo.v2/icon.svg?v=3'') = Forwarded (Some ''/de/logo.v2/icon.svg?v=3'')"
  using dotted_unknown_subpath_passes_through
          [of "''/de/logo.v2/icon.svg?v=3''"
              "\<lparr>BASE_URL = None, pagesDir = None, existsSync = (\<lambda>p. True)\<rparr>"
              "''de''" "Some ''logo.v2/icon.svg''" "''logo.v2/icon.svg''"]
  by (simp add: router_eval)

section \<open>The browser side\<close>

lemmas browser_eval =
  rewriteLinks_def rewrite_href_def getLanguageFromUrl_def lang_prefix_match_def
  url_lang_alternatives_def supportedLanguages_def normalize_pathname_def
  replace_trailing_slash_def endsWith_def startsWith_def suffix_to_prefix or_else_def
  slice_from_def Let_def langPrefixRegex_test_def slash_then_lang_def

text \<open>
  Claim C3 on the page \<open>/de/about.html\<close> of a site served at \<open>/\<close>, with one anchor
  whose \<open>href\<close> is the relative \<open>contact.html\<close>. The first pass writes
  \<open>de/contact.html\<close>, of the form \<open><lang>/<rest>\<close>. \<open>langPrefixRegex\<close> asks for a
  slash before the language code, so the second pass does not see the prefix and writes
  \<open>de/de/contact.html\<close>.
\<close>

theorem rewriteLinks_twice_on_relative_href:
  "rewriteLinks
     \<lparr>env_BASE_URL = ''/'', location_pathname = ''/de/about.html'', location_search = [],
      location_hash = [], localStorage = Map.empty, location_href_assigned = None\<rparr>
     [''contact.html''] = [''de/contact.html'']
   \<and> rewriteLinks
     \<lparr>env_BASE_URL = ''/'', location_pathname = ''/de/about.html'', location_search = [],
      location_hash = [], localStorage = Map.empty, location_href_assigned = None\<rparr>
     (rewriteLinks
        \<lparr>env_BASE_URL = ''/'', location_pathname = ''/de/about.html'', location_search = [],
         location_hash = [], localStorage = Map.empty, location_href_assigned = None\<rparr>
        [''contact.html'']) = [''de/de/contact.html'']"
  by (simp add: browser_eval)

text \<open>
  Where the guard of \<open>rewriteLinks\<close> does its work: on a site served at \<open>/\<close>, an
  \<open>href\<close> that starts with a slash is not changed by a second pass.
\<close>

lemma lang_prefix_alt_hit:
  "l \<in> set ls \<Longrightarrow> lang_prefix_alt ls (l @ CHR ''/'' # x) \<noteq> None"
  by (induction ls) auto

lemma prefixed_form:
  assumes "lang \<in> set url_lang_alternatives"
  shows "replace_after_non_colon (''/'' @ lang @ CHR ''/'' # t)
         = ''/'' @ lang @ CHR ''/''
             # replace_after_non_colon (dropWhile (\<lambda>x. x = CHR ''/'') t)"
  using assms by (auto simp: url_lang_alternatives_def)

lemma rewrite_href_root_relative_stable:
  assumes "lang \<in> set url_lang_alternatives" and "startsWith href ''/''"
  shows "rewrite_href [] lang (rewrite_href [] lang href) = rewrite_href [] lang href"
proof (cases "rewrite_href [] lang href = href")
  case True
  then show ?thesis by simp
next
  case False
  from assms(2) obtain t where href: "href = CHR ''/'' # t"
    by (cases href) (auto simp: startsWith_def)
  let ?h = "''/'' @ lang @ CHR ''/''
              # replace_after_non_colon (dropWhile (\<lambda>x. x = CHR ''/'') t)"
  have h1: "rewrite_href [] lang href = ?h"
    using False href prefixed_form[OF assms(1), of t]
    by (auto simp: rewrite_href_def Let_def startsWith_def split: if_splits)
  have "langPrefixRegex_test [] ?h"
    using lang_prefix_alt_hit[OF assms(1)]
    by (simp add: langPrefixRegex_test_def slash_then_lang_def)
  then have "rewrite_href [] lang ?h = ?h"
    by (simp add: rewrite_href_def Let_def)
  then show ?thesis using h1 by simp
qed

text \<open>
  Claim C7 at the segment \<open>ru\<close>. It is in \<open>supportedLanguages\<close> and in the regular
  expressions of \<open>i18n.ts\<close>: \<open>getLanguageFromUrl\<close> answers \<open>ru\<close> on the page
  \<open>/ru/merge-pdf\<close> and the link rewriter takes \<open>/ru/merge-pdf\<close> as already prefixed.
  It is not in \<open>SUPPORTED_LANGUAGES\<close> of the router, whose \<open>LANG_REGEX\<close> does not
  match \<open>/ru/merge-pdf\<close>. Every other code is in both lists.
\<close>

theorem ru_is_a_language_for_the_browser_only:
  "''ru'' \<in> set supportedLanguages
   \<and> ''ru'' \<notin> set SUPPORTED_LANGUAGES
   \<and> set supportedLanguages = insert ''ru'' (set SUPPORTED_LANGUAGES)
   \<and> set url_lang_alternatives = set supportedLanguages
   \<and> lang_prefix_match ''/ru/merge-pdf'' = Some ''ru''
   \<and> getLanguageFromUrl
       \<lparr>env_BASE_URL = ''/'', location_pathname = ''/ru/merge-pdf'', location_search = [],
        location_hash = [], localStorage = Map.empty, location_href_assigned = None\<rparr> = ''ru''
   \<and> langPrefixRegex_test [] ''/ru/merge-pdf''
   \<and> LANG_REGEX_match ''/ru/merge-pdf'' = None"
  by (auto simp: browser_eval LANG_REGEX_match_def SUPPORTED_LANGUAGES_def)

text \<open>
  Claim C9. \<open>changeLanguage\<close> with a code that is not in \<open>supportedLanguages\<close> leaves
  the browser as it was: nothing is stored under \<open>i18nextLng\<close> and no URL is assigned
  to \<open>window.location.href\<close>.
\<close>

theorem changeLanguage_unsupported_is_noop:
  assumes "lang \<notin> set supportedLanguages"
  shows "changeLanguage lang b = b
       \<and> localStorage (changeLanguage lang b) = localStorage b
       \<and> location_href_assigned (changeLanguage lang b) = location_href_assigned b"
  using assms by (simp add: changeLanguage_def)

theorem changeLanguage_unsupported_witness:
  "''xx'' \<notin> set supportedLanguages
   \<and> changeLanguage ''xx''
       \<lparr>env_BASE_URL = ''/'', location_pathname = ''/de/about.html'', location_search = [],
        location_hash = [], localStorage = [''i18nextLng'' \<mapsto> ''de''],
        location_href_assigned = None\<rparr>
     = \<lparr>env_BASE_URL = ''/'', location_pathname = ''/de/about.html'', location_search = [],
        location_hash = [], localStorage = [''i18nextLng'' \<mapsto> ''de''],
        location_href_assigned = None\<rparr>"
  using changeLanguage_unsupported_is_noop
          [of "''xx''"
              "\<lparr>env_BASE_URL = ''/'', location_pathname = ''/de/about.html'',
                location_search = [], location_hash = [],
                localStorage = [''i18nextLng'' \<mapsto> ''de''], location_href_assigned = None\<rparr>"]
  by (simp add: supportedLanguages_def)

text \<open>With a supported code both writes happen.\<close>

lemma changeLanguage_supported_writes:
  assumes "lang \<in> set supportedLanguages"
  shows "localStorage (changeLanguage lang b) ''i18nextLng'' = Some lang
       \<and> location_href_assigned (changeLanguage lang b) \<noteq> None"
  using assms by (simp add: changeLanguage_def Let_def)

lemma changeLanguage_example:
  "location_href_assigned
     (changeLanguage ''fr''
        \<lparr>env_BASE_URL = ''/'', location_pathname = ''/de/about.html'', location_search = ''?x=1'',
         location_hash = [], localStorage = Map.empty, location_href_assigned = None\<rparr>)
   = Some ''/fr/about.html?x=1''"
  by (simp add: changeLanguage_def supportedLanguages_def url_lang_alternatives_def
      lang_rest_match_def line_terminator_def normalize_pathname_def replace_trailing_slash_def
      endsWith_def startsWith_def suffix_to_prefix or_else_def slice_from_def Let_def)

section \<open>The file list\<close>

lemma filter_shorter: "length (filter P xs) < length xs \<longleftrightarrow> list_ex (\<lambda>x. \<not> P x) xs"
proof (induction xs)
  case Nil
  then show ?case by simp
next
  case (Cons a xs)
  have "length (filter P xs) \<le> length xs" by simp
  then show ?case using Cons by (auto simp: less_Suc_eq_le)
qed

lemma handleFiles_files: "files (handleFiles newFiles st) = files st @ filter is_pdf newFiles"
  by (simp add: handleFiles_def Let_def updateUI_def showAlert_def)

lemma handleFiles_alerts:
  "alerts (handleFiles newFiles st)
   = alerts st @ (if list_ex (\<lambda>f. \<not> is_pdf f) newFiles
                  then [(''Invalid Files'',
                         ''Some files were skipped. Only PDF files are allowed.'')]
                  else [])"
proof (cases "filter is_pdf newFiles = []")
  case True
  then have "list_ex (\<lambda>f. \<not> is_pdf f) newFiles \<longleftrightarrow> newFiles \<noteq> []"
    by (cases newFiles) (auto simp: filter_empty_conv)
  then show ?thesis
    using True by (simp add: handleFiles_def Let_def showAlert_def)
next
  case False
  then show ?thesis
    by (simp add: handleFiles_def Let_def updateUI_def showAlert_def filter_shorter)
qed

lemma removeFile_subset: "set (files (removeFile i st)) \<subseteq> set (files st)"
  by (auto simp: removeFile_def updateUI_def dest!: set_zip_rightD)

lemma handle_event_pdf:
  assumes "list_all is_pdf (files st)"
  shows "list_all is_pdf (files (handle_event e st))"
proof (cases e)
  case (HandleFiles newFiles)
  then show ?thesis using assms by (auto simp: handleFiles_files list_all_iff)
next
  case ClearFiles
  then show ?thesis by (simp add: updateUI_def)
next
  case (RemoveFile i)
  then show ?thesis using assms removeFile_subset[of i st] by (auto simp: list_all_iff)
next
  case ResetState
  then show ?thesis by (simp add: resetState_def updateUI_def)
qed

lemma run_events_pdf:
  "list_all is_pdf (files st) \<Longrightarrow> list_all is_pdf (files (run_events evs st))"
  by (induction evs arbitrary: st) (auto intro: handle_event_pdf)

text \<open>
  Claim C10. \<open>handleFiles\<close> appends to \<open>files\<close> exactly the incoming files whose type
  is \<open>application/pdf\<close> or whose name ends in \<open>.pdf\<close> in any letter case, in their
  order, and leaves the files already there in place; it shows the alert exactly when
  one of the incoming files was skipped; and after any sequence of events of the page
  (files coming in, the clear button, a remove button, \<open>resetState\<close>) every file of
  the list is such a file.
\<close>

theorem handleFiles_appends_the_pdf_files:
  "files (handleFiles newFiles st) = files st @ filter is_pdf newFiles
   \<and> alerts (handleFiles newFiles st)
     = alerts st @ (if list_ex (\<lambda>f. \<not> is_pdf f) newFiles
                    then [(''Invalid Files'',
                           ''Some files were skipped. Only PDF files are allowed.'')]
                    else [])
   \<and> list_all is_pdf (files (run_events evs initial_page))"
  using handleFiles_files handleFiles_alerts run_events_pdf[of initial_page evs]
  by (simp add: initial_page_def)

theorem handleFiles_appends_witness:
  "is_pdf \<lparr>file_name = ''Report.PDF'', file_type = [], file_size = 10\<rparr>
   \<and> \<not> is_pdf \<lparr>file_name = ''notes.txt'', file_type = ''text/plain'', file_size = 20\<rparr>
   \<and> files (handleFiles
        [\<lparr>file_name = ''notes.txt'', file_type = ''text/plain'', file_size = 20\<rparr>,
         \<lparr>file_name = ''Report.PDF'', file_type = [], file_size = 10\<rparr>]
        \<lparr>files = [\<lparr>file_name = ''a.pdf'', file_type = ''application/pdf'', file_size = 1\<rparr>],
         alerts = [], displayed = []\<rparr>)
     = [\<lparr>file_name = ''a.pdf'', file_type = ''application/pdf'', file_size = 1\<rparr>,
        \<lparr>file_name = ''Report.PDF'', file_type = [], file_size = 10\<rparr>]
   \<and> alerts (handleFiles
        [\<lparr>file_name = ''notes.txt'', file_type = ''text/plain'', file_size = 20\<rparr>,
         \<lparr>file_name = ''Report.PDF'', file_type = [], file_size = 10\<rparr>]
        \<lparr>files = [\<lparr>file_name = ''a.pdf'', file_type = ''application/pdf'', file_size = 1\<rparr>],
         alerts = [], displayed = []\<rparr>)
     = [(''Invalid Files'', ''Some files were skipped. Only PDF files are allowed.'')]"
  using handleFiles_appends_the_pdf_files
          [of "[\<lparr>file_name = ''notes.txt'', file_type = ''text/plain'', file_size = 20\<rparr>,
                \<lparr>file_name = ''Report.PDF'', file_type = [], file_size = 10\<rparr>]"
              "\<lparr>files = [\<lparr>file_name = ''a.pdf'', file_type = ''application/pdf'',
                           file_size = 1\<rparr>],
                alerts = [], displayed = []\<rparr>"]
  by (simp add: is_pdf_def toLowerCase_def endsWith_def suffix_to_prefix)

end
